theory Spec2Isabelle
  imports Complex_Main "HOL-Library.Sublist"
begin

section \<open>Python strings\<close>

text \<open>
  A Python \<open>str\<close> is a sequence of Unicode code points, so a string is a list of
  code points (natural numbers).  ASCII text is written as a HOL string and
  converted with \<open>cp\<close>; every other character is written as its code point
  (\<open>225\<close> a-acute, \<open>233\<close> e-acute, \<open>237\<close> i-acute, \<open>243\<close> o-acute,
  \<open>250\<close> u-acute, \<open>241\<close> n-tilde, \<open>191\<close> inverted question mark,
  \<open>161\<close> inverted exclamation mark, \<open>128222\<close> the telephone-receiver emoji).
\<close>

type_synonym ustring = "nat list"

definition cp :: "string \<Rightarrow> ustring" where
  "cp s = map of_char s"

text \<open>\<open>str.isspace\<close> of one code point: the white space of the Unicode database.\<close>

definition is_space :: "nat \<Rightarrow> bool" where
  "is_space c \<longleftrightarrow>
     (9 \<le> c \<and> c \<le> 13) \<or> (28 \<le> c \<and> c \<le> 32) \<or> c = 133 \<or> c = 160 \<or> c = 5760 \<or>
     (8192 \<le> c \<and> c \<le> 8202) \<or> c = 8232 \<or> c = 8233 \<or> c = 8239 \<or> c = 8287 \<or> c = 12288"

text \<open>\<open>s.strip()\<close>: leading and trailing white space removed.\<close>

definition lstrip :: "ustring \<Rightarrow> ustring" where
  "lstrip s = dropWhile is_space s"

definition rstrip :: "ustring \<Rightarrow> ustring" where
  "rstrip s = rev (dropWhile is_space (rev s))"

definition strip :: "ustring \<Rightarrow> ustring" where
  "strip s = rstrip (lstrip s)"

text \<open>\<open>s.startswith(p)\<close> and \<open>p in s\<close>.\<close>

definition startswith :: "ustring \<Rightarrow> ustring \<Rightarrow> bool" where
  "startswith s p = prefix p s"

fun contains :: "ustring \<Rightarrow> ustring \<Rightarrow> bool" where
  "contains [] p = (p = [])"
| "contains (c # cs) p = (prefix p (c # cs) \<or> contains cs p)"

text \<open>
  \<open>s.replace(old, new)\<close>: the non-overlapping occurrences of \<open>old\<close>, found from
  the left, are replaced.  For an empty \<open>old\<close> Python puts \<open>new\<close> before every
  character and at the end.
\<close>

function replace :: "ustring \<Rightarrow> ustring \<Rightarrow> ustring \<Rightarrow> ustring" where
  "replace [] old new = (if old = [] then new else [])"
| "replace (c # cs) old new =
     (if old = [] then new @ c # replace cs old new
      else if prefix old (c # cs) then new @ replace (drop (length old) (c # cs)) old new
      else c # replace cs old new)"
  by pat_completeness auto
termination
  by (relation "measure (\<lambda>(s, old, new). length s)") (auto simp: neq_Nil_conv)

text \<open>
  The digits of the regular expression class \<open>\d\<close> on a \<open>str\<close> pattern are the
  decimal digits of the Unicode database.  The ASCII digits are written out; the
  table of the other decimal digits is the parameter \<open>nd\<close>, which gives the
  value of such a digit.
\<close>

definition ascii_digit :: "nat \<Rightarrow> bool" where
  "ascii_digit c \<longleftrightarrow> 48 \<le> c \<and> c \<le> 57"

definition digit_val :: "(nat \<Rightarrow> nat option) \<Rightarrow> nat \<Rightarrow> nat option" where
  "digit_val nd c = (if ascii_digit c then Some (c - 48) else if c < 128 then None else nd c)"

definition re_digit :: "(nat \<Rightarrow> nat option) \<Rightarrow> nat \<Rightarrow> bool" where
  "re_digit nd c \<longleftrightarrow> digit_val nd c \<noteq> None"

section \<open>Phone numbers\<close>

definition msg_phone_missing :: ustring where
  "msg_phone_missing =
     cp ''Por favor, proporciona un n'' @ [250] @ cp ''mero de celular v'' @ [225] @ cp ''lido.''"

definition msg_phone_invalid :: ustring where
  "msg_phone_invalid =
     cp ''El n'' @ [250] @ cp ''mero de celular no es v'' @ [225] @ cp ''lido. Debe tener 9 d''
     @ [237] @ cp ''gitos, por ejemplo, +51987654321.''"

text \<open>The class \<open>[\s\-\(\)]\<close>: white space, hyphen and the two parentheses.\<close>

definition phone_junk :: "nat \<Rightarrow> bool" where
  "phone_junk c \<longleftrightarrow> is_space c \<or> c = 45 \<or> c = 40 \<or> c = 41"

text \<open>
  \<open>re.sub(r'[\s\-\(\)]+', '', s)\<close>: scanning from the left, every maximal run of
  characters of the class is replaced by the empty string.
\<close>

function re_sub_junk :: "ustring \<Rightarrow> ustring" where
  "re_sub_junk [] = []"
| "re_sub_junk (c # cs) =
     (if phone_junk c then re_sub_junk (dropWhile phone_junk cs) else c # re_sub_junk cs)"
  by pat_completeness auto
termination
  by (relation "measure length") (auto simp: length_dropWhile_le less_Suc_eq_le)

text \<open>
  \<open>re.match(r'^\+51\d{9}$', s)\<close>: \<open>+51\<close>, nine digits, and then the end of the
  string; without the MULTILINE flag \<open>$\<close> also matches before a newline that ends
  the string.
\<close>

definition re_match_phone :: "(nat \<Rightarrow> nat option) \<Rightarrow> ustring \<Rightarrow> bool" where
  "re_match_phone nd s \<longleftrightarrow>
     take 3 s = cp ''+51'' \<and> length (take 9 (drop 3 s)) = 9 \<and>
     list_all (re_digit nd) (take 9 (drop 3 s)) \<and>
     (drop 12 s = [] \<or> drop 12 s = [10])"

text \<open>
  \<open>normalize_phone\<close> returns the pair (normalised number, error message), one of
  them \<open>None\<close>.  \<open>not phone\<close> holds for \<open>None\<close> and for the empty string.
\<close>

definition normalize_phone ::
  "(nat \<Rightarrow> nat option) \<Rightarrow> ustring option \<Rightarrow> ustring option \<times> ustring option" where
  "normalize_phone nd phone =
     (case phone of
        None \<Rightarrow> (None, Some msg_phone_missing)
      | Some p0 \<Rightarrow>
          if p0 = [] then (None, Some msg_phone_missing)
          else
            let p1 = re_sub_junk (strip p0);
                p2 = (if \<not> startswith p1 (cp ''+'') then cp ''+51'' @ p1 else p1)
            in if re_match_phone nd p2 then (Some p2, None)
               else (None, Some msg_phone_invalid))"

section \<open>Dates\<close>

text \<open>
  \<open>s.lower()\<close>.  For a string of Basic Latin and Latin-1 characters the mapping
  is character by character and written out; the case mapping of the Unicode
  database for the other strings is the parameter \<open>ul\<close>.
\<close>

definition latin1_lower :: "nat \<Rightarrow> nat" where
  "latin1_lower c =
     (if (65 \<le> c \<and> c \<le> 90) \<or> (192 \<le> c \<and> c \<le> 214) \<or> (216 \<le> c \<and> c \<le> 222)
      then c + 32 else c)"

definition lower :: "(ustring \<Rightarrow> ustring) \<Rightarrow> ustring \<Rightarrow> ustring" where
  "lower ul s = (if list_all (\<lambda>c. c < 256) s then map latin1_lower s else ul s)"

datatype exn =
    CancelledError
  | TimeoutException
  | HTTPStatusError
  | OverflowError
  | OtherException

record date =
  year :: nat
  month :: nat
  day :: nat

text \<open>The calendar of \<open>datetime\<close>: leap years, days of a month, ordinals, weekdays.\<close>

definition is_leap :: "nat \<Rightarrow> bool" where
  "is_leap y \<longleftrightarrow> y mod 4 = 0 \<and> (y mod 100 \<noteq> 0 \<or> y mod 400 = 0)"

definition days_in_month :: "nat \<Rightarrow> nat \<Rightarrow> nat" where
  "days_in_month y m =
     (if m = 2 \<and> is_leap y then 29
      else [31, 28, 31, 30, 31, 30, 31, 31, 30, 31, 30, 31] ! (m - 1))"

definition valid_date :: "date \<Rightarrow> bool" where
  "valid_date d \<longleftrightarrow>
     1 \<le> year d \<and> year d \<le> 9999 \<and> 1 \<le> month d \<and> month d \<le> 12 \<and>
     1 \<le> day d \<and> day d \<le> days_in_month (year d) (month d)"

definition days_before_year :: "nat \<Rightarrow> nat" where
  "days_before_year y = (y - 1) * 365 + (y - 1) div 4 - (y - 1) div 100 + (y - 1) div 400"

definition days_before_month :: "nat \<Rightarrow> nat \<Rightarrow> nat" where
  "days_before_month y m =
     [0, 31, 59, 90, 120, 151, 181, 212, 243, 273, 304, 334] ! (m - 1)
     + (if m > 2 \<and> is_leap y then 1 else 0)"

definition toordinal :: "date \<Rightarrow> nat" where
  "toordinal d = days_before_year (year d) + days_before_month (year d) (month d) + day d"

text \<open>\<open>d.weekday()\<close>: Monday is 0 and Sunday is 6.\<close>

definition weekday :: "date \<Rightarrow> nat" where
  "weekday d = (toordinal d + 6) mod 7"

text \<open>\<open>d1 < d2\<close> on dates.\<close>

definition date_less :: "date \<Rightarrow> date \<Rightarrow> bool" where
  "date_less a b \<longleftrightarrow>
     year a < year b \<or> (year a = year b \<and> (month a < month b \<or> (month a = month b \<and> day a < day b)))"

text \<open>
  \<open>today + timedelta(days=1)\<close>: the next day of the calendar; past the last day
  that \<open>datetime\<close> represents the addition raises \<open>OverflowError\<close>.
\<close>

definition add_one_day :: "date \<Rightarrow> exn + date" where
  "add_one_day d =
     (if day d < days_in_month (year d) (month d) then Inr (d\<lparr>day := day d + 1\<rparr>)
      else if month d < 12 then Inr (d\<lparr>month := month d + 1, day := 1\<rparr>)
      else if year d < 9999 then Inr \<lparr>year = year d + 1, month = 1, day = 1\<rparr>
      else Inl OverflowError)"

text \<open>\<open>d.strftime("%d/%m/%Y")\<close> and \<open>d.strftime('%A').lower()\<close> (the C locale).\<close>

definition pad2 :: "nat \<Rightarrow> ustring" where
  "pad2 n = [48 + n div 10 mod 10, 48 + n mod 10]"

definition pad4 :: "nat \<Rightarrow> ustring" where
  "pad4 n = [48 + n div 1000 mod 10, 48 + n div 100 mod 10, 48 + n div 10 mod 10, 48 + n mod 10]"

definition strftime_dmy :: "date \<Rightarrow> ustring" where
  "strftime_dmy d = pad2 (day d) @ [47] @ pad2 (month d) @ [47] @ pad4 (year d)"

definition day_name_lower :: "date \<Rightarrow> ustring" where
  "day_name_lower d =
     [cp ''monday'', cp ''tuesday'', cp ''wednesday'', cp ''thursday'', cp ''friday'',
      cp ''saturday'', cp ''sunday''] ! weekday d"

text \<open>
  \<open>datetime.strptime(s, "%d/%m/%Y")\<close>.  The format compiles to the regular
  expression
  \<^verbatim>\<open>(?P<d>3[0-1]|[1-2]\d|0[1-9]|[1-9]| [1-9])/(?P<m>1[0-2]|0[1-9]|[1-9])/(?P<Y>\d\d\d\d)\<close>,
  which has to match the whole string; the three groups are converted with
  \<open>int\<close>, and the date has to exist.  Every failure is a \<open>ValueError\<close>, here
  \<open>None\<close>.  A slash is in no group, so the day is what stands before the first
  slash and the month what stands between the first and the second.
\<close>

definition d19 :: "nat \<Rightarrow> bool" where
  "d19 c \<longleftrightarrow> 49 \<le> c \<and> c \<le> 57"

definition day_token :: "(nat \<Rightarrow> nat option) \<Rightarrow> ustring \<Rightarrow> nat option" where
  "day_token nd t =
     (case t of
        [c1, c2] \<Rightarrow>
          if c1 = 51 \<and> (c2 = 48 \<or> c2 = 49) then Some (30 + (c2 - 48))
          else if c1 = 49 \<or> c1 = 50 then map_option (\<lambda>v. 10 * (c1 - 48) + v) (digit_val nd c2)
          else if (c1 = 48 \<or> c1 = 32) \<and> d19 c2 then Some (c2 - 48)
          else None
      | [c1] \<Rightarrow> if d19 c1 then Some (c1 - 48) else None
      | _ \<Rightarrow> None)"

definition month_token :: "ustring \<Rightarrow> nat option" where
  "month_token t =
     (case t of
        [c1, c2] \<Rightarrow>
          if c1 = 49 \<and> 48 \<le> c2 \<and> c2 \<le> 50 then Some (10 + (c2 - 48))
          else if c1 = 48 \<and> d19 c2 then Some (c2 - 48)
          else None
      | [c1] \<Rightarrow> if d19 c1 then Some (c1 - 48) else None
      | _ \<Rightarrow> None)"

definition year_token :: "(nat \<Rightarrow> nat option) \<Rightarrow> ustring \<Rightarrow> nat option" where
  "year_token nd t =
     (case map (digit_val nd) t of
        [Some a, Some b, Some c, Some d] \<Rightarrow> Some (1000 * a + 100 * b + 10 * c + d)
      | _ \<Rightarrow> None)"

definition not_slash :: "nat \<Rightarrow> bool" where
  "not_slash c \<longleftrightarrow> c \<noteq> 47"

definition strptime_dmy :: "(nat \<Rightarrow> nat option) \<Rightarrow> ustring \<Rightarrow> date option" where
  "strptime_dmy nd s =
     (let dt = takeWhile not_slash s; r1 = dropWhile not_slash s;
          mt = takeWhile not_slash (drop 1 r1); r2 = dropWhile not_slash (drop 1 r1);
          yt = drop 1 r2
      in if r1 = [] \<or> r2 = [] then None
         else
           case (day_token nd dt, month_token mt, year_token nd yt) of
             (Some d, Some m, Some y) \<Rightarrow>
               (let r = \<lparr>year = y, month = m, day = d\<rparr>
                in if valid_date r then Some r else None)
           | _ \<Rightarrow> None)"

definition days_map :: "(ustring \<times> nat) list" where
  "days_map =
     [(cp ''lunes'', 0), (cp ''martes'', 1),
      (cp ''mi'' @ [233] @ cp ''rcoles'', 2), (cp ''miercoles'', 2),
      (cp ''jueves'', 3), (cp ''viernes'', 4),
      (cp ''s'' @ [225] @ cp ''bado'', 5), (cp ''sabado'', 5), (cp ''domingo'', 6)]"

definition msg_date_missing :: ustring where
  "msg_date_missing = cp ''Por favor, proporciona la fecha de la cita.''"

definition msg_specify_valid :: ustring where
  "msg_specify_valid = cp ''. Por favor, especifica una fecha v'' @ [225] @ cp ''lida.''"

definition msg_tomorrow_mismatch :: "ustring \<Rightarrow> ustring \<Rightarrow> ustring" where
  "msg_tomorrow_mismatch dn dr =
     cp ''Ma'' @ [241] @ cp ''ana es '' @ dn @ cp '', no '' @ dr @ msg_specify_valid"

definition msg_date_past :: ustring where
  "msg_date_past = cp ''La fecha no puede ser anterior a hoy'' @ msg_specify_valid"

definition msg_date_mismatch :: "ustring \<Rightarrow> ustring \<Rightarrow> ustring \<Rightarrow> ustring" where
  "msg_date_mismatch di dn dr =
     cp ''La fecha '' @ di @ cp '' es un '' @ dn @ cp '', no '' @ dr @ msg_specify_valid"

definition msg_date_format :: ustring where
  "msg_date_format =
     cp ''No entend'' @ [237] @ cp '' la fecha. Por favor, usa el formato d'' @ [237]
     @ cp ''a/mes/a'' @ [241] @ cp ''o, como 05/08/2025, o di '' @ [39] @ cp ''ma'' @ [241]
     @ cp ''ana'' @ [39] @ cp ''.''"

text \<open>
  The check of \<open>day_reference\<close> against a weekday, shared by the two branches:
  \<open>True\<close> when a non-empty reference names a day of \<open>days_map\<close> other than \<open>wd\<close>.
\<close>

definition day_mismatch :: "(ustring \<Rightarrow> ustring) \<Rightarrow> ustring option \<Rightarrow> nat \<Rightarrow> ustring option" where
  "day_mismatch ul day_reference wd =
     (case day_reference of
        None \<Rightarrow> None
      | Some dr0 \<Rightarrow>
          if dr0 = [] then None
          else
            let dr = strip (lower ul dr0)
            in (case map_of days_map dr of
                  None \<Rightarrow> None
                | Some i \<Rightarrow> if i \<noteq> wd then Some dr else None))"

text \<open>
  \<open>parse_relative_date\<close> returns the pair (formatted date, error message).
  \<open>today\<close> is the date of \<open>datetime.now\<close> in the zone America/Lima.
\<close>

definition parse_relative_date ::
  "(ustring \<Rightarrow> ustring) \<Rightarrow> (nat \<Rightarrow> nat option) \<Rightarrow> date \<Rightarrow> ustring option \<Rightarrow> ustring option
     \<Rightarrow> exn + (ustring option \<times> ustring option)" where
  "parse_relative_date ul nd today date_input day_reference =
     (case date_input of
        None \<Rightarrow> Inr (None, Some msg_date_missing)
      | Some di0 \<Rightarrow>
          if di0 = [] then Inr (None, Some msg_date_missing)
          else
            let di = strip (lower ul di0)
            in if contains di (cp ''ma'' @ [241] @ cp ''ana'') \<or> contains di (cp ''manana'')
               then
                 (case add_one_day today of
                    Inl e \<Rightarrow> Inl e
                  | Inr tomorrow \<Rightarrow>
                      (case day_mismatch ul day_reference (weekday tomorrow) of
                         Some dr \<Rightarrow>
                           Inr (None, Some (msg_tomorrow_mismatch (day_name_lower tomorrow) dr))
                       | None \<Rightarrow> Inr (Some (strftime_dmy tomorrow), None)))
               else
                 (case strptime_dmy nd di of
                    None \<Rightarrow> Inr (None, Some msg_date_format)
                  | Some parsed_date \<Rightarrow>
                      if date_less parsed_date today then Inr (None, Some msg_date_past)
                      else
                        (case day_mismatch ul day_reference (weekday parsed_date) of
                           Some dr \<Rightarrow>
                             Inr (None,
                               Some (msg_date_mismatch di (day_name_lower parsed_date) dr))
                         | None \<Rightarrow> Inr (Some (strftime_dmy parsed_date), None))))"

section \<open>The shared operation state\<close>

text \<open>
  The dictionary \<open>consultation_state\<close>, one field for each key.  A task created by
  \<open>asyncio.create_task\<close> is a handle; a time is a reading of the clock of the event
  loop.
\<close>

type_synonym handle = nat

record consultation_state =
  is_active :: bool
  current_query :: "ustring option"
  operation_type :: "ustring option"
  start_time :: "real option"
  task :: "handle option"
  feedback_task :: "handle option"
  feedback_sent :: "ustring list"
  last_completed :: "real option"

definition initial_state :: consultation_state where
  "initial_state =
     \<lparr>is_active = False, current_query = None, operation_type = None, start_time = None,
      task = None, feedback_task = None, feedback_sent = [], last_completed = None\<rparr>"

text \<open>
  What a coroutine does to the event loop and to the speech output, in program order:
  \<open>t.cancel()\<close>, \<open>await t\<close>, the two \<open>create_task\<close> calls and \<open>active_session.say\<close>.
\<close>

datatype action =
    Cancel handle
  | Await handle
  | CreateFeedback handle
  | CreateBackend handle
  | Say ustring

text \<open>
  A coroutine runs from one \<open>await\<close> to the next without interruption.  Such a segment
  ends suspended at an \<open>await\<close> or finished, with a returned string or a raised exception.
\<close>

datatype point =
    AwaitSay
  | AwaitJoin handle
  | AwaitOwn handle
  | AwaitFeedback ustring

datatype status =
    Suspended point
  | Finished "exn + ustring"

type_synonym segment = "status \<times> action list \<times> consultation_state"

datatype kind = Rag | Appointment

definition op_name :: "kind \<Rightarrow> ustring" where
  "op_name k = (case k of Rag \<Rightarrow> cp ''rag'' | Appointment \<Rightarrow> cp ''appointment'')"

text \<open>Python truth of an optional string: neither \<open>None\<close> nor empty.\<close>

definition truthy :: "ustring option \<Rightarrow> bool" where
  "truthy x = (case x of None \<Rightarrow> False | Some s \<Rightarrow> s \<noteq> [])"

subsection \<open>The fixed utterances\<close>

definition msg_config :: "kind \<Rightarrow> ustring" where
  "msg_config k =
     cp ''Lo siento, hay un problema de configuraci'' @ [243] @ cp ''n que me impide ''
     @ (case k of
          Rag \<Rightarrow> cp ''buscar la informaci'' @ [243] @ cp ''n.''
        | Appointment \<Rightarrow> cp ''agendar la cita.'')"

definition msg_cancelled :: "kind \<Rightarrow> ustring" where
  "msg_cancelled k =
     (case k of
        Rag \<Rightarrow> cp ''He recibido tu nueva pregunta, d'' @ [233] @ cp ''jame procesarla.''
      | Appointment \<Rightarrow> cp ''He recibido una nueva solicitud, d'' @ [233] @ cp ''jame procesarla.'')"

definition msg_timeout :: "kind \<Rightarrow> ustring" where
  "msg_timeout k =
     (case k of
        Rag \<Rightarrow>
          cp ''La consulta est'' @ [225] @ cp '' tardando m'' @ [225] @ cp ''s de lo esperado. ''
          @ [191] @ cp ''Podr'' @ [237] @ cp ''as repetir tu pregunta o ser m'' @ [225]
          @ cp ''s espec'' @ [237] @ cp ''fico?''
      | Appointment \<Rightarrow>
          cp ''El proceso de agendamiento est'' @ [225] @ cp '' tomando m'' @ [225]
          @ cp ''s tiempo del esperado. '' @ [191] @ cp ''Podr'' @ [237]
          @ cp ''as intentar de nuevo?'')"

definition msg_http :: "kind \<Rightarrow> ustring" where
  "msg_http k =
     (case k of
        Rag \<Rightarrow>
          cp ''No pude conectarme con el sistema de informaci'' @ [243]
          @ cp ''n en este momento. '' @ [191] @ cp ''Puedo ayudarte con algo m'' @ [225]
          @ cp ''s?''
      | Appointment \<Rightarrow>
          cp ''No pude conectar con el sistema de agendamiento. '' @ [191]
          @ cp ''Puedo ayudarte con algo m'' @ [225] @ cp ''s?'')"

definition msg_unexpected :: "kind \<Rightarrow> ustring" where
  "msg_unexpected k =
     (case k of
        Rag \<Rightarrow>
          cp ''Ocurri'' @ [243] @ cp '' un error al procesar tu solicitud. '' @ [191]
          @ cp ''Podr'' @ [237] @ cp ''as intentar reformular tu pregunta?''
      | Appointment \<Rightarrow>
          cp ''Ocurri'' @ [243] @ cp '' un error al agendar tu cita. '' @ [191] @ cp ''Podr''
          @ [237] @ cp ''as intentar de nuevo o especificar otra fecha?'')"

definition msg_no_answer :: ustring where
  "msg_no_answer =
     cp ''No encontr'' @ [233] @ cp '' una respuesta clara a tu consulta.''"

subsection \<open>The Backend call\<close>

text \<open>The value of \<open>response.json()\<close>; a \<open>dict\<close> is the list of its items.\<close>

datatype json =
    JNull
  | JBool bool
  | JNum real
  | JStr ustring
  | JArr "json list"
  | JObj "(ustring \<times> json) list"

text \<open>
  What \<open>client.post\<close> and the response give: the request times out, is cancelled, fails
  otherwise, or a response arrives; \<open>Response ok body\<close> is a response on which
  \<open>raise_for_status\<close> raises unless \<open>ok\<close>, and whose \<open>json()\<close> raises if \<open>body\<close> is
  \<open>None\<close>.
\<close>

datatype http_result =
    PostTimeout
  | PostCancelled
  | PostFailed
  | Response bool "json option"

text \<open>\<open>d.get(key, default)\<close>; on a value that is no \<open>dict\<close> the attribute is missing.\<close>

definition json_get :: "json \<Rightarrow> ustring \<Rightarrow> json \<Rightarrow> exn + json" where
  "json_get d key dflt =
     (case d of
        JObj kv \<Rightarrow> (case map_of kv key of None \<Rightarrow> Inr dflt | Some v \<Rightarrow> Inr v)
      | _ \<Rightarrow> Inl OtherException)"

text \<open>The exceptions of the request, up to the parsed body.\<close>

definition http_body :: "http_result \<Rightarrow> exn + json" where
  "http_body h =
     (case h of
        PostTimeout \<Rightarrow> Inl TimeoutException
      | PostCancelled \<Rightarrow> Inl CancelledError
      | PostFailed \<Rightarrow> Inl OtherException
      | Response ok body \<Rightarrow>
          if \<not> ok then Inl HTTPStatusError
          else (case body of None \<Rightarrow> Inl OtherException | Some data \<Rightarrow> Inr data))"

text \<open>
  \<open>answer.replace("**", "").replace("*", "").replace(phone emoji, "").strip()\<close>.
\<close>

definition clean_answer :: "ustring \<Rightarrow> ustring" where
  "clean_answer a = strip (replace (replace (replace a [42, 42] []) [42] []) [128222] [])"

text \<open>
  \<open>perform_query\<close>, the body of the Backend task of \<open>query_knowledge_base\<close>: \<open>url\<close> is
  the environment variable, \<open>st\<close> the shared state when the task runs, \<open>h\<close> what the
  request gives.  The result is what awaiting the task gives: a value or an exception.
\<close>

definition perform_query ::
  "ustring option \<Rightarrow> consultation_state \<Rightarrow> http_result \<Rightarrow> exn + ustring" where
  "perform_query url st h =
     (if \<not> truthy url then Inr (msg_config Rag)
      else
        case current_query st of
          None \<Rightarrow> Inl OtherException
        | Some current_question \<Rightarrow>
            (case http_body h of
               Inl e \<Rightarrow> Inl e
             | Inr data \<Rightarrow>
                 (case json_get data (cp ''answer'') (JStr msg_no_answer) of
                    Inl e \<Rightarrow> Inl e
                  | Inr (JStr answer) \<Rightarrow> Inr (clean_answer answer)
                  | Inr _ \<Rightarrow> Inl OtherException)))"

definition msg_scheduled :: "ustring \<Rightarrow> ustring \<Rightarrow> ustring \<Rightarrow> ustring" where
  "msg_scheduled name formatted_date time =
     [161] @ cp ''Cita agendada exitosamente para '' @ name @ cp '' el '' @ formatted_date
     @ cp '' a las '' @ time @ cp ''! Recibir'' @ [225] @ cp ''s una confirmaci'' @ [243]
     @ cp ''n pronto. '' @ [191] @ cp ''En qu'' @ [233] @ cp '' m'' @ [225]
     @ cp ''s puedo ayudarte?''"

definition msg_not_scheduled :: "ustring \<Rightarrow> ustring" where
  "msg_not_scheduled name =
     cp ''Lo siento, no se pudo agendar la cita para '' @ name @ cp ''. '' @ [191]
     @ cp ''Podr'' @ [237] @ cp ''as intentar con otra fecha u hora?''"

text \<open>
  \<open>perform_scheduling\<close>, the body of the Backend task of \<open>schedule_appointment\<close>; the
  name, the date and the time are the validated arguments of the call.
\<close>

definition perform_scheduling ::
  "ustring option \<Rightarrow> ustring \<Rightarrow> ustring \<Rightarrow> ustring \<Rightarrow> http_result \<Rightarrow> exn + ustring" where
  "perform_scheduling url name formatted_date time h =
     (if \<not> truthy url then Inr (msg_config Appointment)
      else
        case http_body h of
          Inl e \<Rightarrow> Inl e
        | Inr data \<Rightarrow>
            (case json_get data (cp ''status'') JNull of
               Inl e \<Rightarrow> Inl e
             | Inr v \<Rightarrow>
                 if v = JStr (cp ''success'') then Inr (msg_scheduled name formatted_date time)
                 else Inr (msg_not_scheduled name)))"

subsection \<open>The two tools\<close>

text \<open>
  The part that \<open>query_knowledge_base\<close> and \<open>schedule_appointment\<close> have in common,
  from the test of \<open>is_active\<close> on, with the kind \<open>k\<close> of the tool and the text \<open>q\<close>
  that it stores as \<open>current_query\<close>.

  \<open>start_operation\<close> is the code between the \<open>update\<close> that marks the state active and
  \<open>await consultation_state["task"]\<close>: no \<open>await\<close> lies between them.  \<open>now\<close> is the
  clock reading, \<open>hf\<close> and \<open>ht\<close> are the tasks that the two \<open>create_task\<close> calls return.
\<close>

definition start_operation ::
  "kind \<Rightarrow> ustring \<Rightarrow> real \<Rightarrow> handle \<Rightarrow> handle \<Rightarrow> consultation_state \<Rightarrow> segment" where
  "start_operation k q now hf ht st =
     (let st1 = st\<lparr>is_active := True, current_query := Some q,
                   operation_type := Some (op_name k), start_time := Some now,
                   task := None, feedback_task := None, feedback_sent := []\<rparr>;
          st2 = st1\<lparr>feedback_task := Some hf\<rparr>;
          st3 = st2\<lparr>task := Some ht\<rparr>
      in (Suspended (AwaitOwn ht), [CreateFeedback hf, CreateBackend ht, Await ht], st3))"

text \<open>
  \<open>cancel_feedback\<close>: \<open>if feedback_task and not feedback_task.done(): feedback_task.cancel()\<close>,
  with \<open>done\<close> the tasks that are done at this moment.
\<close>

definition feedback_running :: "(handle \<Rightarrow> bool) \<Rightarrow> consultation_state \<Rightarrow> handle option" where
  "feedback_running done st =
     (case feedback_task st of None \<Rightarrow> None | Some f \<Rightarrow> if \<not> done f then Some f else None)"

text \<open>
  \<open>submit_enter\<close>: the tool from the test of \<open>is_active\<close> to its first \<open>await\<close>.  In an
  active state the running feedback task is cancelled, the query and the type are
  overwritten, and the caller awaits the task of the state.
\<close>

definition submit_enter ::
  "kind \<Rightarrow> ustring \<Rightarrow> real \<Rightarrow> (handle \<Rightarrow> bool) \<Rightarrow> handle \<Rightarrow> handle \<Rightarrow> consultation_state
     \<Rightarrow> segment" where
  "submit_enter k q now done hf ht st =
     (if is_active st then
        let acts = (case feedback_running done st of None \<Rightarrow> [] | Some f \<Rightarrow> [Cancel f]);
            st1 = st\<lparr>current_query := Some q, operation_type := Some (op_name k)\<rparr>
        in case task st1 of
             Some t \<Rightarrow> (Suspended (AwaitJoin t), acts @ [Await t], st1)
           | None \<Rightarrow>
               (case start_operation k q now hf ht st1 of
                  (s, acts2, st2) \<Rightarrow> (s, acts @ acts2, st2))
      else start_operation k q now hf ht st)"

text \<open>
  \<open>join_resume\<close>: the caller that awaited the task of another caller is resumed with
  what the task gives.  A value is returned; \<open>CancelledError\<close> is logged and the caller
  goes on to start an operation of its own; any other exception is not handled here.
\<close>

definition join_resume ::
  "kind \<Rightarrow> ustring \<Rightarrow> exn + ustring \<Rightarrow> real \<Rightarrow> handle \<Rightarrow> handle \<Rightarrow> consultation_state
     \<Rightarrow> segment" where
  "join_resume k q outcome now hf ht st =
     (case outcome of
        Inr result \<Rightarrow> (Finished (Inr result), [], st)
      | Inl CancelledError \<Rightarrow> start_operation k q now hf ht st
      | Inl e \<Rightarrow> (Finished (Inl e), [], st))"

text \<open>
  The \<open>try\<close> statement around the caller's own task.  After a value, the elapsed time is
  computed from \<open>start_time\<close> before the value is returned, which fails inside the \<open>try\<close>
  if \<open>start_time\<close> is \<open>None\<close>.  The \<open>except\<close> clauses follow in the order of the source.
\<close>

definition reply_of :: "kind \<Rightarrow> exn + ustring \<Rightarrow> consultation_state \<Rightarrow> ustring" where
  "reply_of k outcome st =
     (case outcome of
        Inr result \<Rightarrow> (case start_time st of None \<Rightarrow> msg_unexpected k | Some t0 \<Rightarrow> result)
      | Inl CancelledError \<Rightarrow> msg_cancelled k
      | Inl TimeoutException \<Rightarrow> msg_timeout k
      | Inl HTTPStatusError \<Rightarrow> msg_http k
      | Inl e \<Rightarrow> msg_unexpected k)"

text \<open>The \<open>update\<close> that ends the \<open>finally\<close> block.\<close>

definition reset_state :: "real \<Rightarrow> consultation_state \<Rightarrow> consultation_state" where
  "reset_state now st =
     st\<lparr>is_active := False, current_query := None, operation_type := None,
        start_time := None, task := None, feedback_task := None,
        last_completed := Some now, feedback_sent := []\<rparr>"

text \<open>
  \<open>own_resume\<close>: the caller that started the operation is resumed with what its task
  gives.  The reply is fixed by the \<open>try\<close> statement; the \<open>finally\<close> block cancels and
  awaits a feedback task that is not done, and otherwise resets the state at once.
  \<open>teardown_resume\<close> is the rest of the \<open>finally\<close> block after that \<open>await\<close>, which
  passes both when the feedback task has finished and on \<open>CancelledError\<close>.
\<close>

definition own_resume ::
  "kind \<Rightarrow> exn + ustring \<Rightarrow> real \<Rightarrow> (handle \<Rightarrow> bool) \<Rightarrow> consultation_state \<Rightarrow> segment" where
  "own_resume k outcome now done st =
     (let reply = reply_of k outcome st
      in case feedback_running done st of
           Some f \<Rightarrow> (Suspended (AwaitFeedback reply), [Cancel f, Await f], st)
         | None \<Rightarrow> (Finished (Inr reply), [], reset_state now st))"

definition teardown_resume :: "ustring \<Rightarrow> real \<Rightarrow> consultation_state \<Rightarrow> segment" where
  "teardown_resume reply now st = (Finished (Inr reply), [], reset_state now st)"

text \<open>
  \<open>own_finish\<close>: the two segments one after the other, from the result of the caller's
  own task to the return of the tool, for a run in which no other coroutine changes the
  state while the feedback task is awaited; \<open>now2\<close> is the clock reading after that
  \<open>await\<close>.
\<close>

definition own_finish ::
  "kind \<Rightarrow> exn + ustring \<Rightarrow> real \<Rightarrow> (handle \<Rightarrow> bool) \<Rightarrow> real \<Rightarrow> consultation_state \<Rightarrow> segment" where
  "own_finish k outcome now done now2 st =
     (case own_resume k outcome now done st of
        (Suspended (AwaitFeedback reply), acts, st1) \<Rightarrow>
          (case teardown_resume reply now2 st1 of (s, acts2, st2) \<Rightarrow> (s, acts @ acts2, st2))
      | seg \<Rightarrow> seg)"

text \<open>
  \<open>query_knowledge_base(question)\<close> from the call to its first \<open>await\<close>.
\<close>

definition query_knowledge_base ::
  "ustring \<Rightarrow> real \<Rightarrow> (handle \<Rightarrow> bool) \<Rightarrow> handle \<Rightarrow> handle \<Rightarrow> consultation_state \<Rightarrow> segment" where
  "query_knowledge_base question now done hf ht st = submit_enter Rag question now done hf ht st"

text \<open>
  \<open>schedule_appointment\<close>.  The arguments are validated first; a failed validation
  returns its message.  Then the confirmation is spoken, which is the first \<open>await\<close>;
  \<open>session\<close> tells whether \<open>active_session\<close> is set, and without it the call of \<open>say\<close>
  raises.  \<open>schedule_appointment_confirmed\<close> is the rest of the tool, after \<open>say\<close>.
\<close>

record appointment_args =
  arg_name :: "ustring option"
  arg_phone :: "ustring option"
  arg_date :: "ustring option"
  arg_day_reference :: "ustring option"
  arg_time :: "ustring option"
  arg_reason :: "ustring option"

fun join_comma :: "ustring list \<Rightarrow> ustring" where
  "join_comma [] = []"
| "join_comma [x] = x"
| "join_comma (x # y # ys) = x @ cp '', '' @ join_comma (y # ys)"

definition msg_missing :: "ustring list \<Rightarrow> ustring" where
  "msg_missing missing_data =
     cp ''Por favor, proporciona los siguientes datos para agendar la cita: ''
     @ join_comma missing_data @ cp ''.''"

definition msg_confirmation :: "ustring \<Rightarrow> ustring \<Rightarrow> ustring \<Rightarrow> ustring" where
  "msg_confirmation name formatted_date time =
     cp ''Entiendo, quieres una cita para '' @ name @ cp '' el '' @ formatted_date
     @ cp '' a las '' @ time @ cp ''. '' @ [191] @ cp ''Es correcto?''"

definition appointment_query :: "ustring \<Rightarrow> ustring \<Rightarrow> ustring \<Rightarrow> ustring" where
  "appointment_query name formatted_date time =
     cp ''Agendar cita para '' @ name @ cp '' el '' @ formatted_date @ cp '' a las '' @ time"

definition missing_data_of ::
  "ustring option \<Rightarrow> ustring option \<Rightarrow> ustring option \<Rightarrow> ustring option \<Rightarrow> ustring list" where
  "missing_data_of name normalized_phone formatted_date time =
     (if \<not> truthy name then [cp ''nombre completo''] else [])
     @ (if \<not> truthy normalized_phone then [cp ''n'' @ [250] @ cp ''mero de celular''] else [])
     @ (if \<not> truthy formatted_date then [cp ''fecha''] else [])
     @ (if \<not> truthy time then [cp ''hora''] else [])"

text \<open>
  An optional string inside an f-string: \<open>None\<close> is printed as the word.
\<close>

definition fstr :: "ustring option \<Rightarrow> ustring" where
  "fstr x = (case x of None \<Rightarrow> cp ''None'' | Some s \<Rightarrow> s)"

text \<open>
  \<open>if phone_error: return phone_error\<close>: the message that ends the call, if there is
  one that is not empty.
\<close>

definition error_of :: "ustring option \<Rightarrow> ustring option" where
  "error_of e = (if truthy e then e else None)"

text \<open>
  The validation of \<open>schedule_appointment\<close>: the outcome that ends the call early, or
  the validated name, date and time.
\<close>

definition validate_appointment ::
  "(ustring \<Rightarrow> ustring) \<Rightarrow> (nat \<Rightarrow> nat option) \<Rightarrow> date \<Rightarrow> appointment_args
     \<Rightarrow> (exn + ustring) + (ustring \<times> ustring \<times> ustring)" where
  "validate_appointment ul nd today a =
     (case normalize_phone nd (arg_phone a) of
        (normalized_phone, phone_error) \<Rightarrow>
          (case error_of phone_error of
             Some msg \<Rightarrow> Inl (Inr msg)
           | None \<Rightarrow>
               (case parse_relative_date ul nd today (arg_date a) (arg_day_reference a) of
                  Inl e \<Rightarrow> Inl (Inl e)
                | Inr (formatted_date, date_error) \<Rightarrow>
                    (case error_of date_error of
                       Some msg \<Rightarrow> Inl (Inr msg)
                     | None \<Rightarrow>
                         let missing_data =
                               missing_data_of (arg_name a) normalized_phone formatted_date
                                 (arg_time a)
                         in if missing_data \<noteq> [] then Inl (Inr (msg_missing missing_data))
                            else Inr (fstr (arg_name a), fstr formatted_date,
                                   fstr (arg_time a))))))"

definition schedule_appointment ::
  "(ustring \<Rightarrow> ustring) \<Rightarrow> (nat \<Rightarrow> nat option) \<Rightarrow> date \<Rightarrow> bool \<Rightarrow> appointment_args
     \<Rightarrow> consultation_state \<Rightarrow> segment" where
  "schedule_appointment ul nd today session a st =
     (case validate_appointment ul nd today a of
        Inl r \<Rightarrow> (Finished r, [], st)
      | Inr (name, formatted_date, time) \<Rightarrow>
          if \<not> session then (Finished (Inl OtherException), [], st)
          else (Suspended AwaitSay, [Say (msg_confirmation name formatted_date time)], st))"

definition schedule_appointment_confirmed ::
  "ustring \<Rightarrow> ustring \<Rightarrow> ustring \<Rightarrow> exn option \<Rightarrow> real \<Rightarrow> (handle \<Rightarrow> bool) \<Rightarrow> handle \<Rightarrow> handle
     \<Rightarrow> consultation_state \<Rightarrow> segment" where
  "schedule_appointment_confirmed name formatted_date time say_raised now done hf ht st =
     (case say_raised of
        Some e \<Rightarrow> (Finished (Inl e), [], st)
      | None \<Rightarrow>
          submit_enter Appointment (appointment_query name formatted_date time) now done hf ht st)"

section \<open>The feedback task\<close>

text \<open>
  \<open>controlled_feedback\<close>, the coroutine of the feedback task.  It has three stages,
  each with a wait, a pool of utterances for each tool, and a name that it appends to
  \<open>feedback_sent\<close>.
\<close>

datatype stage = Initial | Processing | Patience

definition wait_of :: "stage \<Rightarrow> real" where
  "wait_of s = (case s of Initial \<Rightarrow> 3 | Processing \<Rightarrow> 6 | Patience \<Rightarrow> 8)"

definition stage_name :: "stage \<Rightarrow> ustring" where
  "stage_name s =
     (case s of Initial \<Rightarrow> cp ''initial'' | Processing \<Rightarrow> cp ''processing''
      | Patience \<Rightarrow> cp ''patience'')"

definition pool :: "kind \<Rightarrow> stage \<Rightarrow> ustring list" where
  "pool k s =
     (case (k, s) of
        (Rag, Initial) \<Rightarrow>
          [cp ''Consultando la informaci'' @ [243] @ cp ''n, un momento por favor...'',
           cp ''Buscando los detalles para ti, espera un segundo...'',
           cp ''Procesando tu consulta, dame un momento...'']
      | (Rag, Processing) \<Rightarrow>
          [cp ''Un momento m'' @ [225] @ cp ''s, estoy procesando tu consulta...'',
           cp ''Ya casi tengo la respuesta, espera un poco por favor...'',
           cp ''Seguimos buscando la informaci'' @ [243] @ cp ''n, gracias por esperar...'']
      | (Rag, Patience) \<Rightarrow>
          [cp ''A'' @ [250] @ cp ''n estoy buscando la informaci'' @ [243]
             @ cp ''n, gracias por tu paciencia...'',
           cp ''La respuesta est'' @ [225] @ cp '' en camino, te agradezco la espera...'',
           cp ''Seguimos procesando, un poco m'' @ [225] @ cp ''s y te respondo...'']
      | (Appointment, Initial) \<Rightarrow>
          [cp ''Procesando tu solicitud de cita, un momento por favor...'',
           cp ''Agendando tu cita con el gerente comercial, espera un segundo...'',
           cp ''Verificando la disponibilidad, dame un momento...'']
      | (Appointment, Processing) \<Rightarrow>
          [cp ''Un momento m'' @ [225] @ cp ''s, estoy confirmando la cita...'',
           cp ''Ya casi terminamos de agendar, gracias por esperar...'',
           cp ''Procesando los detalles de tu cita, un segundo m'' @ [225] @ cp ''s...'']
      | (Appointment, Patience) \<Rightarrow>
          [cp ''A'' @ [250] @ cp ''n estoy coordinando la cita, gracias por tu paciencia...'',
           cp ''La cita est'' @ [225] @ cp '' en proceso, te agradezco la espera...'',
           cp ''Seguimos trabajando en tu solicitud, un poco m'' @ [225] @ cp ''s y listo...''])"

text \<open>
  \<open>random.choice(xs)\<close> is the element at a random index below the length; \<open>r\<close> is the
  number that the generator draws.
\<close>

definition random_choice :: "nat \<Rightarrow> ustring list \<Rightarrow> ustring" where
  "random_choice r xs = xs ! (r mod length xs)"

text \<open>
  The surroundings of the task.  Time is counted in seconds from the first step of the
  task and advances only in \<open>asyncio.sleep\<close>: the other steps, \<open>say\<close> among them, take
  no time here.
\<close>

record ticker_env =
  active_at :: "real \<Rightarrow> bool"
  session :: bool
  say_raises :: "real \<Rightarrow> bool"
  rand :: "real \<Rightarrow> nat"

type_synonym utterance = "real \<times> stage \<times> ustring"

text \<open>
  One stage at the time \<open>t\<close> at which its wait has elapsed:
  \<open>if consultation_state["is_active"] and active_session:\<close> an utterance of the pool is
  spoken and the stage recorded.  \<open>None\<close> means that \<open>say\<close> raised, which ends the
  coroutine in its \<open>except Exception\<close> clause.
\<close>

definition stage_fire :: "ticker_env \<Rightarrow> kind \<Rightarrow> stage \<Rightarrow> real \<Rightarrow> utterance list option" where
  "stage_fire e k s t =
     (if active_at e t \<and> session e then
        if say_raises e t then None
        else Some [(t, s, random_choice (rand e t) (pool k s))]
      else Some [])"

text \<open>
  The loop \<open>while consultation_state["is_active"]: await asyncio.sleep(8.0); ...\<close>
  entered at time \<open>t\<close>, for a task that is cancelled at time \<open>tc\<close>: a wait that would
  end at \<open>tc\<close> or later is interrupted by \<open>CancelledError\<close>, which ends the coroutine.
\<close>

function patience_loop :: "ticker_env \<Rightarrow> kind \<Rightarrow> real \<Rightarrow> real \<Rightarrow> utterance list" where
  "patience_loop e k tc t =
     (if \<not> active_at e t then []
      else if tc \<le> t + wait_of Patience then []
      else
        case stage_fire e k Patience (t + wait_of Patience) of
          None \<Rightarrow> []
        | Some us \<Rightarrow> us @ patience_loop e k tc (t + wait_of Patience))"
  by pat_completeness auto
termination
proof (relation "measure (\<lambda>(e, k, tc, t). nat \<lceil>tc - t\<rceil>)")
  show "wf (measure (\<lambda>(e, k, tc, t). nat \<lceil>tc - t\<rceil>))"
    by simp
next
  fix e :: ticker_env and k :: kind and tc t :: real and us :: "utterance list"
  assume "\<not> tc \<le> t + wait_of Patience"
  then have "tc - t > 8"
    by (simp add: wait_of_def)
  then have "\<lceil>tc - (t + 8)\<rceil> < \<lceil>tc - t\<rceil>" and "0 < \<lceil>tc - t\<rceil>"
    by linarith+
  then show "((e, k, tc, t + wait_of Patience), (e, k, tc, t))
               \<in> measure (\<lambda>(e, k, tc, t). nat \<lceil>tc - t\<rceil>)"
    by (simp add: wait_of_def)
qed

declare patience_loop.simps [simp del]

text \<open>
  The whole coroutine: the utterances that it speaks and records, with their times,
  until it is cancelled at \<open>tc\<close>.
\<close>

definition controlled_feedback :: "ticker_env \<Rightarrow> kind \<Rightarrow> real \<Rightarrow> utterance list" where
  "controlled_feedback e k tc =
     (let t1 = wait_of Initial
      in if tc \<le> t1 then []
         else
           case stage_fire e k Initial t1 of
             None \<Rightarrow> []
           | Some us1 \<Rightarrow>
               us1 @
               (let t2 = t1 + wait_of Processing
                in if tc \<le> t2 then []
                   else
                     (case stage_fire e k Processing t2 of
                        None \<Rightarrow> []
                      | Some us2 \<Rightarrow> us2 @ patience_loop e k tc t2)))"

text \<open>\<open>feedback_sent\<close> after the task has spoken the utterances \<open>us\<close>.\<close>

definition record_feedback :: "utterance list \<Rightarrow> consultation_state \<Rightarrow> consultation_state" where
  "record_feedback us st =
     st\<lparr>feedback_sent := feedback_sent st @ map (\<lambda>(t, s, m). stage_name s) us\<rparr>"

section \<open>The silence monitor\<close>














section \<open>Properties\<close>

subsection \<open>Unfolding of strings and numbers\<close>

lemmas string_defs = cp_def strip_def lstrip_def rstrip_def is_space_def startswith_def

lemmas phone_defs = normalize_phone_def phone_junk_def re_match_phone_def re_digit_def
  digit_val_def ascii_digit_def msg_phone_invalid_def msg_phone_missing_def

subsection \<open>Phone validation\<close>

lemma normalize_phone_nine_digits:
  "normalize_phone nd (Some (cp ''987654321'')) = (Some (cp ''+51987654321''), None)"
  by (simp add: string_defs phone_defs)

lemma normalize_phone_five_digits:
  "normalize_phone nd (Some (cp ''12345'')) = (None, Some msg_phone_invalid)"
  by (simp add: string_defs phone_defs)

lemma error_of_phone_invalid: "error_of (Some msg_phone_invalid) = Some msg_phone_invalid"
  by (simp add: error_of_def truthy_def msg_phone_invalid_def)

text \<open>
  Claim C8.  The number \<open>987654321\<close> is normalised to \<open>+51987654321\<close> with no error.
  The number \<open>12345\<close> gives no number and the message that asks for nine digits, and
  \<open>schedule_appointment\<close> called with it returns that message at once, whatever its
  other arguments and the shared state are: it speaks nothing, creates no task, so makes
  no Backend call, and leaves the state as it was.
\<close>

theorem phone_scenario:
  "normalize_phone nd (Some (cp ''987654321'')) = (Some (cp ''+51987654321''), None) \<and>
   normalize_phone nd (Some (cp ''12345'')) = (None, Some msg_phone_invalid) \<and>
   contains msg_phone_invalid (cp ''Debe tener 9 d'' @ [237] @ cp ''gitos'') \<and>
   schedule_appointment ul nd today sess (a\<lparr>arg_phone := Some (cp ''12345'')\<rparr>) st
     = (Finished (Inr msg_phone_invalid), [], st)"
proof -
  have "contains msg_phone_invalid (cp ''Debe tener 9 d'' @ [237] @ cp ''gitos'')"
    by (simp add: msg_phone_invalid_def cp_def)
  moreover have
    "schedule_appointment ul nd today sess (a\<lparr>arg_phone := Some (cp ''12345'')\<rparr>) st
       = (Finished (Inr msg_phone_invalid), [], st)"
    by (simp add: schedule_appointment_def validate_appointment_def
        normalize_phone_five_digits error_of_phone_invalid)
  ultimately show ?thesis
    using normalize_phone_nine_digits normalize_phone_five_digits by simp
qed

subsection \<open>Replacing and stripping\<close>

lemma replace_single: "replace s [c] [] = filter (\<lambda>x. x \<noteq> c) s"
  by (induction s) auto

lemma filter_replace_double:
  "filter (\<lambda>x. x \<noteq> c) (replace s [c, c] []) = filter (\<lambda>x. x \<noteq> c) s"
proof (induction s "[c, c]" "[] :: nat list" rule: replace.induct)
  case 1
  show ?case by simp
next
  case (2 d ds)
  show ?case
  proof (cases "prefix [c, c] (d # ds)")
    case True
    then obtain r where "d # ds = c # c # r"
      by (auto simp: prefix_def)
    with True 2 show ?thesis by auto
  next
    case False
    with 2 show ?thesis by auto
  qed
qed

lemma clean_answer_filter:
  "clean_answer a = strip (filter (\<lambda>c. c \<noteq> 42 \<and> c \<noteq> 128222) a)"
proof -
  have "replace (replace a [42, 42] []) [42] [] = filter (\<lambda>x. x \<noteq> 42) a"
    by (simp add: replace_single filter_replace_double)
  then show ?thesis
    by (simp add: clean_answer_def replace_single conj_commute)
qed

lemma set_strip: "set (strip s) \<subseteq> set s"
proof -
  have "set (rev (dropWhile is_space (rev (dropWhile is_space s)))) \<subseteq> set s"
    by (auto dest!: set_dropWhileD)
  then show ?thesis by (simp add: strip_def lstrip_def rstrip_def)
qed

lemma dropWhile_rev_ends:
  assumes "dropWhile P (rev l) \<noteq> []"
  shows "l \<noteq> [] \<and> \<not> P (hd (dropWhile P (rev l))) \<and> last (dropWhile P (rev l)) = hd l"
proof -
  let ?r = "dropWhile P (rev l)"
  from assms have l: "l \<noteq> []" by auto
  have "rev l = takeWhile P (rev l) @ ?r" by simp
  then have "last (rev l) = last ?r" using assms by (metis last_appendR)
  with l have "last ?r = hd l" by (simp add: last_rev)
  moreover have "\<not> P (hd ?r)" using assms hd_dropWhile by blast
  ultimately show ?thesis using l by simp
qed

lemma strip_ends:
  "strip s = [] \<or> (\<not> is_space (hd (strip s)) \<and> \<not> is_space (last (strip s)))"
proof (cases "strip s = []")
  case True
  then show ?thesis by simp
next
  case False
  define l where "l = dropWhile is_space s"
  define r where "r = dropWhile is_space (rev l)"
  have s: "strip s = rev r" by (simp add: strip_def lstrip_def rstrip_def l_def r_def)
  with False have r: "r \<noteq> []" by simp
  then have e: "l \<noteq> [] \<and> \<not> is_space (hd r) \<and> last r = hd l"
    unfolding r_def by (rule dropWhile_rev_ends)
  then have "\<not> is_space (hd l)" unfolding l_def using hd_dropWhile by blast
  with e r s show ?thesis by (simp add: hd_rev last_rev)
qed

subsection \<open>The answer of the knowledge base\<close>

lemma start_operation_state:
  "start_operation k q now hf ht st =
     (Suspended (AwaitOwn ht), [CreateFeedback hf, CreateBackend ht, Await ht],
      st\<lparr>is_active := True, current_query := Some q, operation_type := Some (op_name k),
         start_time := Some now, task := Some ht, feedback_task := Some hf,
         feedback_sent := []\<rparr>)"
  by (simp add: start_operation_def)

lemma own_finish_reply:
  "fst (own_finish k outcome now done now2 st) = Finished (Inr (reply_of k outcome st))"
  by (cases "feedback_running done st")
    (simp_all add: own_finish_def own_resume_def teardown_resume_def Let_def)

text \<open>
  Claim C10.  \<open>query_knowledge_base\<close> is called in an idle state and its request gets a
  successful response whose body is a \<open>dict\<close>.  If the value of \<open>answer\<close> is a string,
  the Backend task gives that string without any asterisk and any telephone emoji, and
  with the white space at both ends stripped, and the tool returns it.  If there is no
  key \<open>answer\<close>, the task gives the fixed default utterance, and the tool returns it.
\<close>

theorem answer_of_successful_response:
  assumes "\<not> is_active st" and "truthy url"
    and "query_knowledge_base question now done hf ht st = (s0, acts0, st0)"
  shows
    "(map_of kv (cp ''answer'') = Some (JStr a) \<longrightarrow>
        (let r = strip (filter (\<lambda>c. c \<noteq> 42 \<and> c \<noteq> 128222) a)
         in perform_query url st0 (Response True (Some (JObj kv))) = Inr r \<and>
            fst (own_finish Rag (Inr r) now1 done1 now2 st0) = Finished (Inr r) \<and>
            42 \<notin> set r \<and> 128222 \<notin> set r \<and>
            (r = [] \<or> (\<not> is_space (hd r) \<and> \<not> is_space (last r))))) \<and>
     (map_of kv (cp ''answer'') = None \<longrightarrow>
        perform_query url st0 (Response True (Some (JObj kv))) = Inr msg_no_answer \<and>
        fst (own_finish Rag (Inr msg_no_answer) now1 done1 now2 st0)
          = Finished (Inr msg_no_answer))"
proof -
  from assms(1,3) have st0: "current_query st0 = Some question" "start_time st0 = Some now"
    by (auto simp: query_knowledge_base_def submit_enter_def start_operation_state)
  have ret: "fst (own_finish Rag (Inr r) now1 done1 now2 st0) = Finished (Inr r)" for r
    using st0 by (simp add: own_finish_reply reply_of_def)
  have default: "clean_answer msg_no_answer = msg_no_answer"
    by (simp add: clean_answer_filter msg_no_answer_def string_defs)
  have pq: "perform_query url st0 (Response True (Some (JObj kv))) =
      (case map_of kv (cp ''answer'') of None \<Rightarrow> Inr msg_no_answer
        | Some (JStr b) \<Rightarrow> Inr (clean_answer b) | Some _ \<Rightarrow> Inl OtherException)"
    using assms(2) st0
    by (simp add: perform_query_def http_body_def json_get_def default
        split: option.splits json.splits)
  have a: "42 \<notin> set (strip (filter (\<lambda>c. c \<noteq> 42 \<and> c \<noteq> 128222) a))"
    "128222 \<notin> set (strip (filter (\<lambda>c. c \<noteq> 42 \<and> c \<noteq> 128222) a))"
    using set_strip [of "filter (\<lambda>c. c \<noteq> 42 \<and> c \<noteq> 128222) a"] by auto
  show ?thesis
    using pq ret a strip_ends [of "filter (\<lambda>c. c \<noteq> 42 \<and> c \<noteq> 128222) a"]
    by (simp add: clean_answer_filter Let_def)
qed

theorem answer_of_successful_response_witness:
  "\<not> is_active initial_state \<and> truthy (Some (cp ''http://n8n/rag'')) \<and>
   perform_query (Some (cp ''http://n8n/rag''))
     (snd (snd (query_knowledge_base (cp ''precio'') 0 (\<lambda>h. False) 1 2 initial_state)))
     (Response True (Some (JObj [(cp ''answer'', JStr (cp '' **Hola** *mundo* '' @ [128222, 32]))])))
     = Inr (cp ''Hola mundo'') \<and>
   perform_query (Some (cp ''http://n8n/rag''))
     (snd (snd (query_knowledge_base (cp ''precio'') 0 (\<lambda>h. False) 1 2 initial_state)))
     (Response True (Some (JObj [(cp ''other'', JNull)])))
     = Inr msg_no_answer"
proof -
  let ?st0 = "snd (snd (query_knowledge_base (cp ''precio'') 0 (\<lambda>h. False) 1 2 initial_state))"
  have i: "\<not> is_active initial_state" by (simp add: initial_state_def)
  have u: "truthy (Some (cp ''http://n8n/rag''))" by (simp add: truthy_def cp_def)
  have q: "query_knowledge_base (cp ''precio'') 0 (\<lambda>h. False) 1 2 initial_state
      = (fst (query_knowledge_base (cp ''precio'') 0 (\<lambda>h. False) 1 2 initial_state),
         fst (snd (query_knowledge_base (cp ''precio'') 0 (\<lambda>h. False) 1 2 initial_state)), ?st0)"
    by simp
  have m1: "map_of [(cp ''answer'', JStr (cp '' **Hola** *mundo* '' @ [128222, 32]))] (cp ''answer'')
      = Some (JStr (cp '' **Hola** *mundo* '' @ [128222, 32]))" by simp
  have m2: "map_of [(cp ''other'', JNull)] (cp ''answer'') = None" by (simp add: cp_def)
  have e: "strip (filter (\<lambda>c. c \<noteq> 42 \<and> c \<noteq> 128222) (cp '' **Hola** *mundo* '' @ [128222, 32]))
      = cp ''Hola mundo''" by (simp add: string_defs)
  from answer_of_successful_response [OF i u q,
      of "[(cp ''answer'', JStr (cp '' **Hola** *mundo* '' @ [128222, 32]))]"
         "cp '' **Hola** *mundo* '' @ [128222, 32]"] m1 e
  have 1: "perform_query (Some (cp ''http://n8n/rag'')) ?st0
     (Response True (Some (JObj [(cp ''answer'', JStr (cp '' **Hola** *mundo* '' @ [128222, 32]))])))
     = Inr (cp ''Hola mundo'')" by (simp add: Let_def)
  from answer_of_successful_response [OF i u q, of "[(cp ''other'', JNull)]"] m2
  have 2: "perform_query (Some (cp ''http://n8n/rag'')) ?st0
     (Response True (Some (JObj [(cp ''other'', JNull)]))) = Inr msg_no_answer" by simp
  from i u 1 2 show ?thesis by simp
qed

subsection \<open>Dates in the past\<close>

lemma contains_set: "contains s p \<Longrightarrow> set p \<subseteq> set s"
proof (induction s)
  case Nil
  then show ?case by simp
next
  case (Cons c cs)
  from Cons.prems have "prefix p (c # cs) \<or> contains cs p" by simp
  then show ?case
  proof
    assume "prefix p (c # cs)"
    then show ?thesis by (rule set_mono_prefix)
  next
    assume "contains cs p"
    then have "set p \<subseteq> set cs" by (rule Cons.IH)
    then show ?thesis by auto
  qed
qed

lemma digit_val_ascii: "n < 10 \<Longrightarrow> digit_val nd (48 + n) = Some n"
  by (simp add: digit_val_def ascii_digit_def)

lemma day_token_pad2:
  assumes "1 \<le> n" and "n \<le> 31"
  shows "day_token nd (pad2 n) = Some n"
proof -
  define a b where "a = n div 10" and "b = n mod 10"
  have n: "n = 10 * a + b" and b: "b < 10" and a: "a \<le> 3"
    using assms by (auto simp: a_def b_def)
  have p: "pad2 n = [48 + a, 48 + b]"
    using a by (simp add: pad2_def a_def b_def)
  consider "a = 0" | "a = 1" | "a = 2" | "a = 3" using a by linarith
  then show ?thesis
  proof cases
    case 1
    with n assms b show ?thesis
      unfolding p by (simp add: day_token_def d19_def)
  next
    case 2
    with n b show ?thesis
      unfolding p by (simp add: day_token_def digit_val_ascii)
  next
    case 3
    with n b show ?thesis
      unfolding p by (simp add: day_token_def digit_val_ascii)
  next
    case 4
    with n assms b have "b = 0 \<or> b = 1" by linarith
    with 4 n show ?thesis
      unfolding p by (auto simp: day_token_def)
  qed
qed

lemma month_token_pad2:
  assumes "1 \<le> n" and "n \<le> 12"
  shows "month_token (pad2 n) = Some n"
proof -
  define a b where "a = n div 10" and "b = n mod 10"
  have n: "n = 10 * a + b" and b: "b < 10" and a: "a \<le> 1"
    using assms by (auto simp: a_def b_def)
  have p: "pad2 n = [48 + a, 48 + b]"
    using a by (simp add: pad2_def a_def b_def)
  consider "a = 0" | "a = 1" using a by linarith
  then show ?thesis
  proof cases
    case 1
    with n assms b show ?thesis
      unfolding p by (simp add: month_token_def d19_def)
  next
    case 2
    with n assms b show ?thesis
      unfolding p by (simp add: month_token_def d19_def)
  qed
qed

lemma four_digits:
  assumes "n \<le> 9999"
  shows "1000 * (n div 1000 mod 10) + 100 * (n div 100 mod 10) + 10 * (n div 10 mod 10) + n mod 10 = (n::nat)"
proof -
  define q1 q2 q3 where "q1 = n div 10" and "q2 = q1 div 10" and "q3 = q2 div 10"
  have e2: "n div 100 = q2" and e3: "n div 1000 = q3"
    by (simp_all add: q1_def q2_def q3_def div_mult2_eq)
  have "q3 < 10" using assms unfolding e3 [symmetric] by (simp add: div_less_iff_less_mult)
  then have m3: "q3 mod 10 = q3" by simp
  have "n = 10 * q1 + n mod 10" "q1 = 10 * q2 + q1 mod 10" "q2 = 10 * q3 + q2 mod 10"
    by (simp_all add: q1_def q2_def q3_def)
  then show ?thesis
    unfolding e2 e3 m3 q1_def [symmetric] by linarith
qed
lemma year_token_pad4:
  assumes "n \<le> 9999"
  shows "year_token nd (pad4 n) = Some n"
proof -
  define a b c d where "a = n div 1000 mod 10" and "b = n div 100 mod 10"
    and "c = n div 10 mod 10" and "d = n mod 10"
  have lt: "a < 10" "b < 10" "c < 10" "d < 10"
    by (simp_all add: a_def b_def c_def d_def)
  have n: "1000 * a + 100 * b + 10 * c + d = n"
    unfolding a_def b_def c_def d_def by (rule four_digits [OF assms])
  have "pad4 n = [48 + a, 48 + b, 48 + c, 48 + d]"
    by (simp add: pad4_def a_def b_def c_def d_def)
  then show ?thesis
    using lt n by (simp add: year_token_def digit_val_ascii)
qed

lemma days_in_month_le:
  assumes "1 \<le> m" and "m \<le> 12"
  shows "days_in_month y m \<le> 31"
proof -
  let ?L = "[31, 28, 31, 30, 31, 30, 31, 31, 30, 31, 30, 31] :: nat list"
  from assms have "m - 1 < length ?L" by simp
  then have "?L ! (m - 1) \<in> set ?L" by (rule nth_mem)
  moreover have "\<forall>x\<in>set ?L. x \<le> 31" by simp
  ultimately have "?L ! (m - 1) \<le> 31" by blast
  then show ?thesis by (simp add: days_in_month_def)
qed

lemma pad2_chars: "set (pad2 n) \<subseteq> {48..57}"
proof -
  have "n div 10 mod 10 < 10" "n mod 10 < 10" by simp_all
  then show ?thesis unfolding pad2_def by auto
qed

lemma pad4_chars: "set (pad4 n) \<subseteq> {48..57}"
proof -
  have "n div 1000 mod 10 < 10" "n div 100 mod 10 < 10" "n div 10 mod 10 < 10" "n mod 10 < 10"
    by simp_all
  then show ?thesis unfolding pad4_def by auto
qed

lemma strftime_chars: "set (strftime_dmy d) \<subseteq> {47..57}"
  using pad2_chars [of "day d"] pad2_chars [of "month d"] pad4_chars [of "year d"]
  by (auto simp: strftime_dmy_def)

lemma until_slash:
  "takeWhile not_slash (pad2 n @ 47 # r) = pad2 n"
  "dropWhile not_slash (pad2 n @ 47 # r) = 47 # r"
  by (simp_all add: pad2_def not_slash_def)

lemma strptime_strftime:
  assumes "valid_date d"
  shows "strptime_dmy nd (strftime_dmy d) = Some d"
proof -
  from assms have r: "1 \<le> day d" "day d \<le> 31" "1 \<le> month d" "month d \<le> 12" "year d \<le> 9999"
    using days_in_month_le [of "month d" "year d"] by (auto simp: valid_date_def)
  define s where "s = strftime_dmy d"
  define r1 where "r1 = dropWhile not_slash s"
  define r2 where "r2 = dropWhile not_slash (drop 1 r1)"
  have s: "s = pad2 (day d) @ 47 # (pad2 (month d) @ 47 # pad4 (year d))"
    by (simp add: s_def strftime_dmy_def)
  have dt: "takeWhile not_slash s = pad2 (day d)"
    unfolding s by (rule until_slash)
  have r1: "r1 = 47 # (pad2 (month d) @ 47 # pad4 (year d))"
    unfolding r1_def s by (rule until_slash)
  have d1: "drop 1 r1 = pad2 (month d) @ 47 # pad4 (year d)"
    unfolding r1 by simp
  have mt: "takeWhile not_slash (drop 1 r1) = pad2 (month d)"
    unfolding d1 by (rule until_slash)
  have r2: "r2 = 47 # pad4 (year d)"
    unfolding r2_def d1 by (rule until_slash)
  have yt: "drop 1 r2 = pad4 (year d)"
    unfolding r2 by simp
  have ne: "r1 \<noteq> []" "r2 \<noteq> []"
    by (simp_all add: r1 r2)
  have v: "valid_date \<lparr>year = year d, month = month d, day = day d\<rparr>"
    using assms by (simp add: valid_date_def)
  have "strptime_dmy nd s = Some \<lparr>year = year d, month = month d, day = day d\<rparr>"
    unfolding strptime_dmy_def Let_def
    unfolding r1_def [symmetric]
    unfolding r2_def [symmetric]
    unfolding dt mt yt
    using ne v r by (simp add: day_token_pad2 month_token_pad2 year_token_pad4)
  then show ?thesis by (simp add: s_def)
qed

lemma lower_strftime: "lower ul (strftime_dmy d) = strftime_dmy d"
proof -
  have "\<forall>c\<in>set (strftime_dmy d). c < 256 \<and> latin1_lower c = c"
    using strftime_chars [of d] by (auto simp: latin1_lower_def)
  then show ?thesis
    by (simp add: lower_def list_all_iff map_idI)
qed

lemma not_space_digit: "48 \<le> c \<Longrightarrow> c \<le> 57 \<Longrightarrow> \<not> is_space c"
  by (simp add: is_space_def)

lemma strip_strftime: "strip (strftime_dmy d) = strftime_dmy d"
proof -
  have "\<not> is_space (48 + day d div 10 mod 10)" "\<not> is_space (48 + year d mod 10)"
    by (simp_all add: not_space_digit)
  then show ?thesis
    by (simp add: strip_def lstrip_def rstrip_def strftime_dmy_def pad2_def pad4_def)
qed

lemma no_tomorrow_strftime:
  "\<not> contains (strftime_dmy d) (cp ''ma'' @ [241] @ cp ''ana'')"
  "\<not> contains (strftime_dmy d) (cp ''manana'')"
proof -
  have "109 \<notin> set (strftime_dmy d)"
    using strftime_chars [of d] by auto
  moreover have "109 \<in> set (cp ''ma'' @ [241] @ cp ''ana'')" "109 \<in> set (cp ''manana'')"
    by (simp_all add: cp_def)
  ultimately show "\<not> contains (strftime_dmy d) (cp ''ma'' @ [241] @ cp ''ana'')"
    "\<not> contains (strftime_dmy d) (cp ''manana'')"
    using contains_set by blast+
qed

lemma strftime_nonempty: "strftime_dmy d \<noteq> []"
  by (simp add: strftime_dmy_def pad2_def)

lemma parse_past_date:
  assumes "valid_date d" and "date_less d today"
  shows "parse_relative_date ul nd today (Some (strftime_dmy d)) day_reference
           = Inr (None, Some msg_date_past)"
  using assms
  by (simp add: parse_relative_date_def lower_strftime strip_strftime
      no_tomorrow_strftime [simplified] strftime_nonempty strptime_strftime Let_def)

lemma error_of_date_past: "error_of (Some msg_date_past) = Some msg_date_past"
  by (simp add: error_of_def truthy_def msg_date_past_def cp_def)

lemma error_of_None: "error_of None = None"
  by (simp add: error_of_def truthy_def)

text \<open>
  Claim C9.  For every date of the calendar that lies strictly before today's date in
  Lima, the input that writes it as DD/MM/YYYY makes \<open>parse_relative_date\<close> return no
  date and the fixed message that the date cannot be earlier than today, whatever the
  day reference is.  \<open>schedule_appointment\<close> checks the phone number before the date;
  when the phone number passes, it returns that message at once: it speaks nothing,
  creates no task, so makes no Backend call, and leaves the state as it was.
\<close>

theorem past_date_rejected:
  assumes "valid_date d" and "date_less d today"
  shows "parse_relative_date ul nd today (Some (strftime_dmy d)) day_reference
           = Inr (None, Some msg_date_past) \<and>
         (snd (normalize_phone nd (arg_phone a)) = None \<longrightarrow>
            schedule_appointment ul nd today sess (a\<lparr>arg_date := Some (strftime_dmy d)\<rparr>) st
              = (Finished (Inr msg_date_past), [], st))"
proof -
  have "schedule_appointment ul nd today sess (a\<lparr>arg_date := Some (strftime_dmy d)\<rparr>) st
          = (Finished (Inr msg_date_past), [], st)"
    if "snd (normalize_phone nd (arg_phone a)) = None"
    using that
    by (cases "normalize_phone nd (arg_phone a)")
      (simp add: schedule_appointment_def validate_appointment_def parse_past_date [OF assms]
        error_of_date_past error_of_None)
  then show ?thesis
    using parse_past_date [OF assms] by simp
qed


theorem past_date_rejected_witness:
  "valid_date \<lparr>year = 2020, month = 1, day = 1\<rparr> \<and>
   date_less \<lparr>year = 2020, month = 1, day = 1\<rparr> \<lparr>year = 2025, month = 7, day = 16\<rparr> \<and>
   strftime_dmy \<lparr>year = 2020, month = 1, day = 1\<rparr> = cp ''01/01/2020'' \<and>
   parse_relative_date (\<lambda>s. s) (\<lambda>c. None) \<lparr>year = 2025, month = 7, day = 16\<rparr> (Some (cp ''01/01/2020'')) None
     = Inr (None, Some msg_date_past) \<and>
   schedule_appointment (\<lambda>s. s) (\<lambda>c. None) \<lparr>year = 2025, month = 7, day = 16\<rparr> True
     \<lparr>arg_name = Some (cp ''Ana''), arg_phone = Some (cp ''987654321''),
      arg_date = Some (cp ''01/01/2020''), arg_day_reference = None,
      arg_time = Some (cp ''10:00''), arg_reason = None\<rparr> initial_state
     = (Finished (Inr msg_date_past), [], initial_state)"
proof -
  let ?d = "\<lparr>year = 2020, month = 1, day = 1\<rparr>"
  let ?t = "\<lparr>year = 2025, month = 7, day = 16\<rparr>"
  let ?a = "\<lparr>arg_name = Some (cp ''Ana''), arg_phone = Some (cp ''987654321''),
      arg_date = None, arg_day_reference = None,
      arg_time = Some (cp ''10:00''), arg_reason = None\<rparr>"
  have v: "valid_date ?d" by (simp add: valid_date_def days_in_month_def)
  have l: "date_less ?d ?t" by (simp add: date_less_def)
  have s: "strftime_dmy ?d = cp ''01/01/2020''"
    by (simp add: strftime_dmy_def pad2_def pad4_def cp_def)
  have p: "snd (normalize_phone (\<lambda>c. None) (arg_phone ?a)) = None"
    by (simp add: string_defs phone_defs)
  from past_date_rejected [OF v l, of "\<lambda>s. s" "\<lambda>c. None" None ?a True initial_state] p s v l
  show ?thesis by simp
qed

subsection \<open>The end of an operation\<close>

lemma reply_of_cases:
  "reply_of k (Inl CancelledError) st = msg_cancelled k"
  "reply_of k (Inl TimeoutException) st = msg_timeout k"
  "reply_of k (Inl HTTPStatusError) st = msg_http k"
  "reply_of k (Inl OverflowError) st = msg_unexpected k"
  "reply_of k (Inl OtherException) st = msg_unexpected k"
  by (simp_all add: reply_of_def)

lemma own_finish_cases:
  "own_finish k outcome now done now2 st =
     (case feedback_running done st of
        None \<Rightarrow> (Finished (Inr (reply_of k outcome st)), [], reset_state now st)
      | Some f \<Rightarrow> (Finished (Inr (reply_of k outcome st)), [Cancel f, Await f], reset_state now2 st))"
  by (cases "feedback_running done st")
    (simp_all add: own_finish_def own_resume_def teardown_resume_def Let_def)

text \<open>
  Claim C3.  The caller that started an operation is resumed with what its Backend task
  gives: a value, a cancellation, a timeout, an HTTP status error or any other
  exception.  In every case the tool returns a reply only after the teardown: a feedback
  task that is not done is cancelled and awaited, and the state is reset, with
  \<open>is_active\<close> false, the query, the type, the start time and both tasks unset,
  \<open>feedback_sent\<close> empty, and \<open>last_completed\<close> the clock reading at the reset.  The
  reset after the \<open>await\<close> of the feedback task gives the idle shape whatever the state
  has become in the meantime.  After a timeout the reply is the timeout utterance.
\<close>

theorem teardown_on_every_outcome:
  "\<exists>reply acts st'.
     own_finish k outcome now done now2 st = (Finished (Inr reply), acts, st') \<and>
     acts = (case feedback_task st of
               None \<Rightarrow> []
             | Some f \<Rightarrow> if done f then [] else [Cancel f, Await f]) \<and>
     \<not> is_active st' \<and> current_query st' = None \<and> operation_type st' = None \<and>
     start_time st' = None \<and> task st' = None \<and> feedback_task st' = None \<and>
     feedback_sent st' = [] \<and>
     last_completed st' = Some (if acts = [] then now else now2) \<and>
     reply_of k (Inl TimeoutException) st = msg_timeout k \<and>
     (\<exists>st''. teardown_resume reply now2 st2 = (Finished (Inr reply), [], st'') \<and>
        \<not> is_active st'' \<and> current_query st'' = None \<and> operation_type st'' = None \<and>
        start_time st'' = None \<and> task st'' = None \<and> feedback_task st'' = None \<and>
        feedback_sent st'' = [] \<and> last_completed st'' = Some now2)"
  by (cases "feedback_task st")
    (simp_all add: own_finish_cases feedback_running_def reset_state_def teardown_resume_def
      reply_of_cases)

subsection \<open>Failures of the Backend call\<close>

text \<open>
  For the caller that started the operation, each failure has its own fixed utterance.
\<close>

lemma utterances_distinct:
  "distinct [msg_config k, msg_timeout k, msg_http k, msg_unexpected k, msg_cancelled k]"
  by (cases k)
    (simp_all add: msg_config_def msg_timeout_def msg_http_def msg_unexpected_def
      msg_cancelled_def cp_def)

text \<open>
  Claim C5 fails for a caller that joins.  Two calls of \<open>query_knowledge_base\<close>: the
  first starts the operation, the second finds it active and awaits the same task.  The
  request times out.  The first caller returns the timeout utterance; in the second
  caller the exception of the task is raised by \<open>await\<close> outside any handler for it
  and leaves the tool.
\<close>

theorem joiner_raises_backend_failure:
  "(let (s1, a1, st1) = query_knowledge_base (cp ''precio'') 0 (\<lambda>h. False) 1 2 initial_state;
        (s2, a2, st2) = query_knowledge_base (cp ''horario'') 1 (\<lambda>h. False) 3 4 st1;
        outcome = perform_query (Some (cp ''http://n8n/rag'')) st2 PostTimeout
    in s1 = Suspended (AwaitOwn 2) \<and> s2 = Suspended (AwaitJoin 2) \<and>
       outcome = Inl TimeoutException \<and>
       fst (own_finish Rag outcome 16 (\<lambda>h. h = 1) 16 st2) = Finished (Inr (msg_timeout Rag)) \<and>
       fst (join_resume Rag (cp ''horario'') outcome 16 3 4 st2) = Finished (Inl TimeoutException))"
  by (simp add: query_knowledge_base_def submit_enter_def start_operation_state
      initial_state_def feedback_running_def perform_query_def truthy_def http_body_def
      own_finish_reply reply_of_cases join_resume_def cp_def)

subsection \<open>Supersession and the feedback task\<close>

text \<open>
  Claim C2 fails at the \<open>await\<close>.  The second of two calls finds the operation active:
  it cancels the feedback task of the first and then awaits the Backend task, without
  awaiting the task that it cancelled.  The teardown of the same tool cancels and then
  awaits it.
\<close>

theorem supersession_cancel_not_awaited:
  "(let (s1, a1, st1) = query_knowledge_base (cp ''precio'') 0 (\<lambda>h. False) 1 2 initial_state;
        (s2, a2, st2) = query_knowledge_base (cp ''horario'') 1 (\<lambda>h. False) 3 4 st1
    in feedback_task st1 = Some 1 \<and> task st1 = Some 2 \<and>
       s2 = Suspended (AwaitJoin 2) \<and> a2 = [Cancel 1, Await 2] \<and> Await 1 \<notin> set a2 \<and>
       fst (snd (own_resume Rag (Inl TimeoutException) 16 (\<lambda>h. False) st1))
         = [Cancel 1, Await 1])"
  by (simp add: query_knowledge_base_def submit_enter_def start_operation_state
      initial_state_def feedback_running_def own_resume_def Let_def)

subsection \<open>The silence monitor\<close>










end
